theory Spec2Isabelle
  imports
    Main
    "HOL-Library.Word"
    "HOL-Library.Char_ord"
    "HOL-Library.List_Lexorder"
    "HOL-Library.RBT"
begin

unbundle bit_operations_syntax

section \<open>AppResponse (ext/common/agents/HelperAgent/RequestHandler/AppResponse.h)\<close>

subsection \<open>The enumerations\<close>

text \<open>
  \<^verbatim>\<open>enum HttpState\<close> gives its nine enumerators no explicit values, so they are numbered
  0 to 8 in the order of declaration. The field \<^verbatim>\<open>HttpState httpState: 5\<close> is a bit-field
  of five bits: the object stores a five-bit value, of which only nine are enumerators.
\<close>

datatype HttpState =
    PARSING_HEADERS
  | PARSED_HEADERS
  | COMPLETE
  | PARSING_BODY_WITH_LENGTH
  | PARSING_CHUNKED_BODY
  | PARSING_BODY_UNTIL_EOF
  | UPGRADED
  | ONEHUNDRED_CONTINUE
  | ERROR

fun HttpState_val :: "HttpState \<Rightarrow> 5 word" where
  "HttpState_val PARSING_HEADERS = 0"
| "HttpState_val PARSED_HEADERS = 1"
| "HttpState_val COMPLETE = 2"
| "HttpState_val PARSING_BODY_WITH_LENGTH = 3"
| "HttpState_val PARSING_CHUNKED_BODY = 4"
| "HttpState_val PARSING_BODY_UNTIL_EOF = 5"
| "HttpState_val UPGRADED = 6"
| "HttpState_val ONEHUNDRED_CONTINUE = 7"
| "HttpState_val ERROR = 8"

text \<open>
  \<^verbatim>\<open>enum BodyType\<close> fixes the values 0, 1, 2, 4, 8 ("deliberately chosen so that
  hasRequestBody() can be branchless"). The field \<^verbatim>\<open>BodyType bodyType\<close> stores a value of
  the enumeration's underlying integer type, 32 bits wide.
\<close>

datatype BodyType =
    RBT_NO_BODY
  | RBT_UPGRADE
  | RBT_CONTENT_LENGTH
  | RBT_CHUNKED
  | RBT_UNTIL_EOF

fun BodyType_val :: "BodyType \<Rightarrow> 32 word" where
  "BodyType_val RBT_NO_BODY = 0"
| "BodyType_val RBT_UPGRADE = 1"
| "BodyType_val RBT_CONTENT_LENGTH = 2"
| "BodyType_val RBT_CHUNKED = 4"
| "BodyType_val RBT_UNTIL_EOF = 8"

subsection \<open>The object\<close>

text \<open>
  The union \<^verbatim>\<open>parserState\<close> holds either a pointer to the header parser's state or the
  chunked body parser's state. A pointer is an address or \<^verbatim>\<open>NULL\<close> (\<open>None\<close>). The struct
  \<^verbatim>\<open>ServerKit::HttpChunkedBodyParserState\<close> is declared elsewhere: it is the type
  parameter \<open>'c\<close>.
\<close>

datatype 'c parserState =
    HeaderParser (headerParser: "nat option")
  | ChunkedBodyParser (chunkedBodyParser: 'c)

text \<open>
  The class \<^verbatim>\<open>ServerKit::HeaderTable\<close> is declared elsewhere: it is the type parameter
  \<open>'t\<close>, and its constructor (from an initial capacity) is a parameter of the
  constructor below.

  The union \<^verbatim>\<open>aux\<close> overlays four members on the same eight bytes of storage:
  \<^verbatim>\<open>boost::uint64_t contentLength\<close>, \<^verbatim>\<open>bool endChunkReached\<close>, \<^verbatim>\<open>bool endReached\<close> and
  \<^verbatim>\<open>int parseError\<close>. The field \<open>aux\<close> is that storage, read as the 64-bit member.
\<close>

record ('c, 't) AppResponse =
  httpMajor :: "8 word"
  httpMinor :: "8 word"
  httpState :: "5 word"
  wantKeepAlive :: bool
  oneHundredContinueSent :: bool
  hasDateHeader :: bool
  bodyType :: "32 word"
  statusCode :: "16 word"
  parserState :: "'c parserState"
  headers :: 't
  secureHeaders :: 't
  aux :: "64 word"
  bodyAlreadyRead :: "64 word"

subsection \<open>The members of the union aux\<close>

text \<open>
  Every member of a union starts at the first byte of its storage. Which bits of the
  64-bit member the first byte and the first four bytes are depends on the byte order of
  the machine, a parameter of the narrow members. A \<^verbatim>\<open>bool\<close> is one byte, true when
  it is not zero; an \<^verbatim>\<open>int\<close> is four bytes, read as two's complement.
\<close>

datatype byte_order = LittleEndian | BigEndian

definition contentLength :: "('c, 't) AppResponse \<Rightarrow> 64 word" where
  "contentLength r = aux r"

definition aux_first_byte :: "byte_order \<Rightarrow> 64 word \<Rightarrow> 8 word" where
  "aux_first_byte bo w =
     (case bo of LittleEndian \<Rightarrow> ucast w | BigEndian \<Rightarrow> ucast (drop_bit 56 w))"

definition aux_first_four_bytes :: "byte_order \<Rightarrow> 64 word \<Rightarrow> 32 word" where
  "aux_first_four_bytes bo w =
     (case bo of LittleEndian \<Rightarrow> ucast w | BigEndian \<Rightarrow> ucast (drop_bit 32 w))"

definition endChunkReached :: "byte_order \<Rightarrow> ('c, 't) AppResponse \<Rightarrow> bool" where
  "endChunkReached bo r = (aux_first_byte bo (aux r) \<noteq> 0)"

definition endReached :: "byte_order \<Rightarrow> ('c, 't) AppResponse \<Rightarrow> bool" where
  "endReached bo r = (aux_first_byte bo (aux r) \<noteq> 0)"

definition parseError :: "byte_order \<Rightarrow> ('c, 't) AppResponse \<Rightarrow> int" where
  "parseError bo r = sint (aux_first_four_bytes bo (aux r))"

subsection \<open>The constructor\<close>

text \<open>
  \<^verbatim>\<open>
  AppResponse()
      : headers(16),
        secureHeaders(0),
        bodyAlreadyRead(0)
  {
      parserState.headerParser = NULL;
      aux.bodyInfo.contentLength = 0; // Sets the entire union to 0.
  }
  \<close>
  The constructor runs on the storage of the new object, \<open>mem\<close>, and assigns five of
  its members. The others keep what the storage held.
\<close>

definition AppResponse_ctor ::
  "(nat \<Rightarrow> 't) \<Rightarrow> ('c, 't) AppResponse \<Rightarrow> ('c, 't) AppResponse" where
  "AppResponse_ctor HeaderTable_ctor mem =
     mem\<lparr> headers := HeaderTable_ctor 16,
          secureHeaders := HeaderTable_ctor 0,
          bodyAlreadyRead := 0,
          parserState := HeaderParser None,
          aux := 0 \<rparr>"

subsection \<open>The queries\<close>


definition getBodyTypeString :: "('c, 't) AppResponse \<Rightarrow> string option" where
  "getBodyTypeString r =
     (if bodyType r = BodyType_val RBT_NO_BODY then Some ''NO_BODY''
      else if bodyType r = BodyType_val RBT_UPGRADE then Some ''UPGRADE''
      else if bodyType r = BodyType_val RBT_CONTENT_LENGTH then Some ''CONTENT_LENGTH''
      else if bodyType r = BodyType_val RBT_UNTIL_EOF then Some ''RBT_UNTIL_EOF''
      else if bodyType r = BodyType_val RBT_CHUNKED then Some ''CHUNKED''
      else None)"

definition bodyFullyRead :: "byte_order \<Rightarrow> ('c, 't) AppResponse \<Rightarrow> bool option" where
  "bodyFullyRead bo r =
     (if bodyType r = BodyType_val RBT_NO_BODY then Some True
      else if bodyType r = BodyType_val RBT_UPGRADE then Some False
      else if bodyType r = BodyType_val RBT_CONTENT_LENGTH
        then Some (bodyAlreadyRead r \<ge> contentLength r)
      else if bodyType r = BodyType_val RBT_CHUNKED then Some (endChunkReached bo r)
      else if bodyType r = BodyType_val RBT_UNTIL_EOF then Some (endReached bo r)
      else None)"

text \<open>
  \<^verbatim>\<open>return bodyType & (RBT_CONTENT_LENGTH | RBT_CHUNKED | RBT_UNTIL_EOF);\<close>
  The integer result converts to \<^verbatim>\<open>bool\<close>: true when it is not zero.
\<close>

definition hasBody :: "('c, 't) AppResponse \<Rightarrow> bool" where
  "hasBody r =
     (bodyType r AND
        (BodyType_val RBT_CONTENT_LENGTH OR BodyType_val RBT_CHUNKED
           OR BodyType_val RBT_UNTIL_EOF) \<noteq> 0)"

text \<open>
  \<^verbatim>\<open>return wantKeepAlive && bodyFullyRead();\<close>
  The operator \<^verbatim>\<open>&&\<close> evaluates its right operand only when the left one is true.
\<close>

definition canKeepAlive :: "byte_order \<Rightarrow> ('c, 't) AppResponse \<Rightarrow> bool option" where
  "canKeepAlive bo r = (if wantKeepAlive r then bodyFullyRead bo r else Some False)"

section \<open>SpawnException (ext/common/Exceptions.h)\<close>

datatype ErrorKind =
    UNDEFINED_ERROR
  | PRELOADER_STARTUP_PROTOCOL_ERROR
  | PRELOADER_STARTUP_TIMEOUT
  | PRELOADER_STARTUP_EXPLAINABLE_ERROR
  | APP_STARTUP_PROTOCOL_ERROR
  | APP_STARTUP_TIMEOUT
  | APP_STARTUP_EXPLAINABLE_ERROR

text \<open>
  A \<^verbatim>\<open>std::map<string, string>\<close> is a finite search tree with one entry for each key,
  iterated in the order of the keys: a red-black tree over strings, which are ordered
  byte by byte.
\<close>

type_synonym string_map = "(string, string) rbt"

record SpawnException =
  errorKind :: ErrorKind
  msg :: string
  m_hasErrorPage :: bool
  m_isHTML :: bool
  m_errorPage :: string
  preloaderCommand :: string
  annotations :: string_map

text \<open>
  \<^verbatim>\<open>
  void addAnnotations(const map<string, string> &annotations) {
      map<string, string>::const_iterator it, end = annotations.end();
      for (it = annotations.begin(); it != end; it++) {
          this->annotations[it->first] = it->second;
      }
  }
  \<close>
  The loop visits the entries of the argument from first to last; each step stores one
  entry, inserting the key or replacing its value.
\<close>

fun addAnnotations_loop :: "(string \<times> string) list \<Rightarrow> string_map \<Rightarrow> string_map" where
  "addAnnotations_loop [] this_annotations = this_annotations"
| "addAnnotations_loop (it # rest) this_annotations =
     addAnnotations_loop rest (RBT.insert (fst it) (snd it) this_annotations)"

definition addAnnotations :: "SpawnException \<Rightarrow> string_map \<Rightarrow> SpawnException" where
  "addAnnotations e m =
     e\<lparr> annotations := addAnnotations_loop (RBT.entries m) (annotations e) \<rparr>"

definition getAnnotations :: "SpawnException \<Rightarrow> string_map" where
  "getAnnotations e = annotations e"

text \<open>
  \<^verbatim>\<open>
  string get(const string &name) const {
      map<string, string>::const_iterator it = annotations.find(name);
      if (it == annotations.end()) {
          return string();
      } else {
          return it->second;
      }
  }
  \<close>
\<close>

definition get :: "SpawnException \<Rightarrow> string \<Rightarrow> string" where
  "get e name =
     (case RBT.lookup (annotations e) name of
        None \<Rightarrow> []
      | Some second \<Rightarrow> second)"

text \<open>\<^verbatim>\<open>string operator[](const string &name) const { return get(name); }\<close>\<close>

definition subscript :: "SpawnException \<Rightarrow> string \<Rightarrow> string" where
  "subscript e name = get e name"

section \<open>Example objects\<close>

text \<open>
  A response with \<^verbatim>\<open>Content-Length: 5\<close> whose five body bytes have been read, on a
  connection the application wants to keep alive.
\<close>

definition example_response :: "(unit, nat) AppResponse" where
  "example_response =
     \<lparr> httpMajor = 1, httpMinor = 1, httpState = HttpState_val PARSING_BODY_WITH_LENGTH,
       wantKeepAlive = True, oneHundredContinueSent = False, hasDateHeader = True,
       bodyType = BodyType_val RBT_CONTENT_LENGTH, statusCode = 200,
       parserState = HeaderParser None, headers = 16, secureHeaders = 0,
       aux = 5, bodyAlreadyRead = 5 \<rparr>"

text \<open>
  Storage that held other data before an object is constructed in it: no byte of the
  union \<^verbatim>\<open>aux\<close> is zero, the bits of \<^verbatim>\<open>httpState\<close> read as 8, the value of
  \<^verbatim>\<open>ERROR\<close>, and \<^verbatim>\<open>bodyType\<close> reads as 3, which is no enumerator.
\<close>

definition example_storage :: "(unit, nat) AppResponse" where
  "example_storage =
     \<lparr> httpMajor = 255, httpMinor = 255, httpState = 8,
       wantKeepAlive = True, oneHundredContinueSent = True, hasDateHeader = True,
       bodyType = 3, statusCode = 65535,
       parserState = ChunkedBodyParser (), headers = 7, secureHeaders = 7,
       aux = 72340172838076673, bodyAlreadyRead = 99 \<rparr>"

text \<open>An exception with two annotations, and a map of two annotations to add to it.\<close>

definition example_exception :: SpawnException where
  "example_exception =
     \<lparr> errorKind = APP_STARTUP_TIMEOUT, msg = ''timeout'', m_hasErrorPage = False,
       m_isHTML = False, m_errorPage = [], preloaderCommand = [],
       annotations = RBT.insert ''stdout'' ''old'' (RBT.insert ''envvars'' ''PATH'' RBT.empty) \<rparr>"

definition example_annotations :: string_map where
  "example_annotations = RBT.insert ''stdout'' ''new'' (RBT.insert ''stderr'' [] RBT.empty)"

section \<open>Auxiliary facts\<close>

lemma bodyFullyRead_defined:
  assumes "bodyType r = BodyType_val b"
  shows "\<exists>f. bodyFullyRead bo r = Some f"
  using assms by (cases b) (auto simp: bodyFullyRead_def)



text \<open>
  The loop of \<^verbatim>\<open>addAnnotations\<close> overrides the stored annotations with the entries it
  visits, a later entry winning over an earlier one with the same key.
\<close>

lemma lookup_addAnnotations_loop:
  "RBT.lookup (addAnnotations_loop kvs a) = RBT.lookup a ++ map_of (rev kvs)"
  by (induction kvs arbitrary: a) (auto simp: map_add_def fun_eq_iff split: option.splits)

text \<open>The entries of a map have distinct keys, so the order of the visits is immaterial.\<close>

lemma lookup_addAnnotations:
  "RBT.lookup (annotations (addAnnotations e m)) = RBT.lookup (annotations e) ++ RBT.lookup m"
  by (simp add: addAnnotations_def lookup_addAnnotations_loop
      RBT_Impl.distinct_map_of_rev RBT.distinct_entries)

section \<open>Keep-alive and body completion\<close>

text \<open>
  C1. \<^verbatim>\<open>canKeepAlive()\<close> returns true if and only if \<^verbatim>\<open>wantKeepAlive\<close> is true and
  \<^verbatim>\<open>bodyFullyRead()\<close> returns true. This holds in every state of the object. Where
  \<^verbatim>\<open>bodyType\<close> is one of the five enumerators, \<^verbatim>\<open>bodyFullyRead()\<close> returns a flag and
  \<^verbatim>\<open>canKeepAlive()\<close> returns the conjunction of \<^verbatim>\<open>wantKeepAlive\<close> with it, in all
  four combinations; and whenever \<^verbatim>\<open>bodyFullyRead()\<close> returns false,
  \<^verbatim>\<open>canKeepAlive()\<close> returns false.
\<close>

theorem canKeepAlive_iff:
  "(canKeepAlive bo r = Some True \<longleftrightarrow> wantKeepAlive r \<and> bodyFullyRead bo r = Some True)
   \<and> (\<forall>b. bodyType r = BodyType_val b \<longrightarrow>
         (\<exists>f. bodyFullyRead bo r = Some f
              \<and> canKeepAlive bo r = Some (wantKeepAlive r \<and> f)))
   \<and> (bodyFullyRead bo r = Some False \<longrightarrow> canKeepAlive bo r = Some False)"
proof (intro conjI allI impI)
  show "canKeepAlive bo r = Some True \<longleftrightarrow> wantKeepAlive r \<and> bodyFullyRead bo r = Some True"
    by (simp add: canKeepAlive_def)
next
  fix b assume "bodyType r = BodyType_val b"
  then obtain f where f: "bodyFullyRead bo r = Some f"
    using bodyFullyRead_defined by blast
  then have "canKeepAlive bo r = Some (wantKeepAlive r \<and> f)"
    by (simp add: canKeepAlive_def)
  with f show "\<exists>f. bodyFullyRead bo r = Some f
      \<and> canKeepAlive bo r = Some (wantKeepAlive r \<and> f)"
    by blast
next
  assume "bodyFullyRead bo r = Some False"
  then show "canKeepAlive bo r = Some False"
    by (simp add: canKeepAlive_def)
qed

theorem canKeepAlive_iff_witness:
  "bodyType example_response = BodyType_val RBT_CONTENT_LENGTH
   \<and> wantKeepAlive example_response
   \<and> bodyFullyRead LittleEndian example_response = Some True
   \<and> canKeepAlive LittleEndian example_response = Some True
   \<and> bodyFullyRead LittleEndian (example_response\<lparr>bodyAlreadyRead := 4\<rparr>) = Some False
   \<and> canKeepAlive LittleEndian (example_response\<lparr>bodyAlreadyRead := 4\<rparr>) = Some False"
proof -
  have t: "bodyType example_response = BodyType_val RBT_CONTENT_LENGTH"
    by (simp add: example_response_def)
  have w: "wantKeepAlive example_response"
    by (simp add: example_response_def)
  have f: "bodyFullyRead LittleEndian example_response = Some True"
    by (simp add: example_response_def bodyFullyRead_def contentLength_def)
  have g: "bodyFullyRead LittleEndian (example_response\<lparr>bodyAlreadyRead := 4\<rparr>) = Some False"
    by (simp add: example_response_def bodyFullyRead_def contentLength_def)
  from canKeepAlive_iff [of LittleEndian example_response] w f
  have "canKeepAlive LittleEndian example_response = Some True"
    by blast
  moreover
  from canKeepAlive_iff [of LittleEndian "example_response\<lparr>bodyAlreadyRead := 4\<rparr>"] g
  have "canKeepAlive LittleEndian (example_response\<lparr>bodyAlreadyRead := 4\<rparr>) = Some False"
    by blast
  ultimately show ?thesis
    using t w f g by simp
qed

text \<open>
  C2. \<^verbatim>\<open>bodyFullyRead()\<close> returns, by case on \<^verbatim>\<open>bodyType\<close>: true for
  \<^verbatim>\<open>RBT_NO_BODY\<close> and false for \<^verbatim>\<open>RBT_UPGRADE\<close>, whatever the other fields hold;
  \<^verbatim>\<open>bodyAlreadyRead >= contentLength\<close> for \<^verbatim>\<open>RBT_CONTENT_LENGTH\<close>; the flag
  \<^verbatim>\<open>endChunkReached\<close> for \<^verbatim>\<open>RBT_CHUNKED\<close>; the flag \<^verbatim>\<open>endReached\<close> for
  \<^verbatim>\<open>RBT_UNTIL_EOF\<close>.
\<close>

theorem bodyFullyRead_cases:
  "(bodyType r = BodyType_val RBT_NO_BODY \<longrightarrow> bodyFullyRead bo r = Some True)
   \<and> (bodyType r = BodyType_val RBT_UPGRADE \<longrightarrow> bodyFullyRead bo r = Some False)
   \<and> (bodyType r = BodyType_val RBT_CONTENT_LENGTH \<longrightarrow>
        bodyFullyRead bo r = Some (bodyAlreadyRead r \<ge> contentLength r))
   \<and> (bodyType r = BodyType_val RBT_CHUNKED \<longrightarrow>
        bodyFullyRead bo r = Some (endChunkReached bo r))
   \<and> (bodyType r = BodyType_val RBT_UNTIL_EOF \<longrightarrow>
        bodyFullyRead bo r = Some (endReached bo r))"
  by (simp add: bodyFullyRead_def)

theorem bodyFullyRead_cases_witness:
  "bodyFullyRead BigEndian (example_response\<lparr>bodyType := BodyType_val RBT_NO_BODY\<rparr>) = Some True
   \<and> bodyFullyRead BigEndian (example_response\<lparr>bodyType := BodyType_val RBT_UPGRADE\<rparr>) = Some False
   \<and> bodyFullyRead BigEndian example_response = Some True
   \<and> bodyFullyRead BigEndian (example_response\<lparr>bodyAlreadyRead := 4\<rparr>) = Some False
   \<and> bodyFullyRead BigEndian (example_response\<lparr>bodyType := BodyType_val RBT_CHUNKED\<rparr>)
       = Some False
   \<and> bodyFullyRead LittleEndian (example_response\<lparr>bodyType := BodyType_val RBT_UNTIL_EOF\<rparr>)
       = Some True"
proof -
  let ?r = example_response
  have "bodyType (?r\<lparr>bodyType := BodyType_val RBT_NO_BODY\<rparr>) = BodyType_val RBT_NO_BODY"
    by simp
  with bodyFullyRead_cases [of "?r\<lparr>bodyType := BodyType_val RBT_NO_BODY\<rparr>" BigEndian]
  have 1: "bodyFullyRead BigEndian (?r\<lparr>bodyType := BodyType_val RBT_NO_BODY\<rparr>) = Some True"
    by blast
  have "bodyType (?r\<lparr>bodyType := BodyType_val RBT_UPGRADE\<rparr>) = BodyType_val RBT_UPGRADE"
    by simp
  with bodyFullyRead_cases [of "?r\<lparr>bodyType := BodyType_val RBT_UPGRADE\<rparr>" BigEndian]
  have 2: "bodyFullyRead BigEndian (?r\<lparr>bodyType := BodyType_val RBT_UPGRADE\<rparr>) = Some False"
    by blast
  have t: "bodyType ?r = BodyType_val RBT_CONTENT_LENGTH"
    by (simp add: example_response_def)
  with bodyFullyRead_cases [of ?r BigEndian]
  have "bodyFullyRead BigEndian ?r = Some (bodyAlreadyRead ?r \<ge> contentLength ?r)"
    by blast
  then have 3: "bodyFullyRead BigEndian ?r = Some True"
    by (simp add: example_response_def contentLength_def)
  from t have "bodyType (?r\<lparr>bodyAlreadyRead := 4\<rparr>) = BodyType_val RBT_CONTENT_LENGTH"
    by simp
  with bodyFullyRead_cases [of "?r\<lparr>bodyAlreadyRead := 4\<rparr>" BigEndian]
  have "bodyFullyRead BigEndian (?r\<lparr>bodyAlreadyRead := 4\<rparr>)
      = Some (bodyAlreadyRead (?r\<lparr>bodyAlreadyRead := 4\<rparr>)
          \<ge> contentLength (?r\<lparr>bodyAlreadyRead := 4\<rparr>))"
    by blast
  then have 4: "bodyFullyRead BigEndian (?r\<lparr>bodyAlreadyRead := 4\<rparr>) = Some False"
    by (simp add: example_response_def contentLength_def)
  have "bodyType (?r\<lparr>bodyType := BodyType_val RBT_CHUNKED\<rparr>) = BodyType_val RBT_CHUNKED"
    by simp
  with bodyFullyRead_cases [of "?r\<lparr>bodyType := BodyType_val RBT_CHUNKED\<rparr>" BigEndian]
  have "bodyFullyRead BigEndian (?r\<lparr>bodyType := BodyType_val RBT_CHUNKED\<rparr>)
      = Some (endChunkReached BigEndian (?r\<lparr>bodyType := BodyType_val RBT_CHUNKED\<rparr>))"
    by blast
  then have 5: "bodyFullyRead BigEndian (?r\<lparr>bodyType := BodyType_val RBT_CHUNKED\<rparr>) = Some False"
    by (simp add: example_response_def endChunkReached_def aux_first_byte_def)
  have "bodyType (?r\<lparr>bodyType := BodyType_val RBT_UNTIL_EOF\<rparr>) = BodyType_val RBT_UNTIL_EOF"
    by simp
  with bodyFullyRead_cases [of "?r\<lparr>bodyType := BodyType_val RBT_UNTIL_EOF\<rparr>" LittleEndian]
  have "bodyFullyRead LittleEndian (?r\<lparr>bodyType := BodyType_val RBT_UNTIL_EOF\<rparr>)
      = Some (endReached LittleEndian (?r\<lparr>bodyType := BodyType_val RBT_UNTIL_EOF\<rparr>))"
    by blast
  then have 6: "bodyFullyRead LittleEndian (?r\<lparr>bodyType := BodyType_val RBT_UNTIL_EOF\<rparr>) = Some True"
    by (simp add: example_response_def endReached_def aux_first_byte_def)
  from 1 2 3 4 5 6 show ?thesis by blast
qed

text \<open>
  C3. In a state with \<^verbatim>\<open>bodyType == RBT_CONTENT_LENGTH\<close> and a positive
  \<^verbatim>\<open>contentLength\<close>, \<^verbatim>\<open>bodyFullyRead()\<close> is false while
  \<^verbatim>\<open>bodyAlreadyRead < contentLength\<close> and true from
  \<^verbatim>\<open>bodyAlreadyRead >= contentLength\<close> on. So it is monotone in
  \<^verbatim>\<open>bodyAlreadyRead\<close>: once true at some count, it is true at every greater count;
  and at the count 0 it is false.
\<close>

theorem bodyFullyRead_content_length:
  assumes "bodyType r = BodyType_val RBT_CONTENT_LENGTH" and "0 < contentLength r"
  shows "(bodyAlreadyRead r < contentLength r \<longrightarrow> bodyFullyRead bo r = Some False)
    \<and> (bodyAlreadyRead r \<ge> contentLength r \<longrightarrow> bodyFullyRead bo r = Some True)
    \<and> (\<forall>n m. n \<le> m \<and> bodyFullyRead bo (r\<lparr>bodyAlreadyRead := n\<rparr>) = Some True
          \<longrightarrow> bodyFullyRead bo (r\<lparr>bodyAlreadyRead := m\<rparr>) = Some True)
    \<and> bodyFullyRead bo (r\<lparr>bodyAlreadyRead := 0\<rparr>) = Some False"
  using assms by (auto simp: bodyFullyRead_def contentLength_def word_gt_0)

theorem bodyFullyRead_content_length_witness:
  "bodyType example_response = BodyType_val RBT_CONTENT_LENGTH
   \<and> 0 < contentLength example_response
   \<and> bodyFullyRead LittleEndian (example_response\<lparr>bodyAlreadyRead := 0\<rparr>) = Some False
   \<and> bodyFullyRead LittleEndian example_response = Some True
   \<and> bodyFullyRead LittleEndian (example_response\<lparr>bodyAlreadyRead := 6\<rparr>) = Some True"
proof -
  have t: "bodyType example_response = BodyType_val RBT_CONTENT_LENGTH"
    by (simp add: example_response_def)
  have p: "0 < contentLength example_response"
    by (simp add: example_response_def contentLength_def)
  note c = bodyFullyRead_content_length [OF t p, of LittleEndian]
  have f: "bodyAlreadyRead example_response \<ge> contentLength example_response"
    by (simp add: example_response_def contentLength_def)
  with c have 1: "bodyFullyRead LittleEndian example_response = Some True"
    by blast
  then have "bodyFullyRead LittleEndian (example_response\<lparr>bodyAlreadyRead := 5\<rparr>) = Some True"
    by (simp add: example_response_def)
  moreover have "(5 :: 64 word) \<le> 6" by simp
  ultimately have 2: "bodyFullyRead LittleEndian (example_response\<lparr>bodyAlreadyRead := 6\<rparr>) = Some True"
    using c by blast
  from c have 3: "bodyFullyRead LittleEndian (example_response\<lparr>bodyAlreadyRead := 0\<rparr>) = Some False"
    by blast
  from t p 1 2 3 show ?thesis by blast
qed

section \<open>Presence of a body\<close>

text \<open>
  C4. Where \<^verbatim>\<open>bodyType\<close> is one of the five enumerators, \<^verbatim>\<open>hasBody()\<close> returns
  true if and only if it is \<^verbatim>\<open>RBT_CONTENT_LENGTH\<close>, \<^verbatim>\<open>RBT_CHUNKED\<close> or
  \<^verbatim>\<open>RBT_UNTIL_EOF\<close>. The bit mask agrees with the membership test because the
  enumerators have the values 0, 1, 2, 4, 8: two different enumerators have different
  values that share no bit.
\<close>

theorem hasBody_iff:
  "(\<forall>b. bodyType r = BodyType_val b \<longrightarrow>
      (hasBody r \<longleftrightarrow> b \<in> {RBT_CONTENT_LENGTH, RBT_CHUNKED, RBT_UNTIL_EOF}))
   \<and> map BodyType_val [RBT_NO_BODY, RBT_UPGRADE, RBT_CONTENT_LENGTH, RBT_CHUNKED, RBT_UNTIL_EOF]
       = [0, 1, 2, 4, 8]
   \<and> (\<forall>b b'. b \<noteq> b' \<longrightarrow> BodyType_val b \<noteq> BodyType_val b'
         \<and> BodyType_val b AND BodyType_val b' = 0)"
proof (intro conjI allI impI)
  fix b assume "bodyType r = BodyType_val b"
  then show "hasBody r \<longleftrightarrow> b \<in> {RBT_CONTENT_LENGTH, RBT_CHUNKED, RBT_UNTIL_EOF}"
    by (cases b) (simp_all add: hasBody_def)
next
  show "map BodyType_val [RBT_NO_BODY, RBT_UPGRADE, RBT_CONTENT_LENGTH, RBT_CHUNKED, RBT_UNTIL_EOF]
       = [0, 1, 2, 4, 8]" by simp
next
  fix b b' :: BodyType assume "b \<noteq> b'"
  then show "BodyType_val b \<noteq> BodyType_val b'"
    by (cases b; cases b') simp_all
next
  fix b b' :: BodyType assume "b \<noteq> b'"
  then show "BodyType_val b AND BodyType_val b' = 0"
    by (cases b; cases b') simp_all
qed

theorem hasBody_iff_witness:
  "bodyType example_response = BodyType_val RBT_CONTENT_LENGTH
   \<and> hasBody example_response
   \<and> \<not> hasBody (example_response\<lparr>bodyType := BodyType_val RBT_UPGRADE\<rparr>)
   \<and> RBT_CHUNKED \<noteq> RBT_UNTIL_EOF
   \<and> BodyType_val RBT_CHUNKED AND BodyType_val RBT_UNTIL_EOF = 0"
proof -
  have t: "bodyType example_response = BodyType_val RBT_CONTENT_LENGTH"
    by (simp add: example_response_def)
  with hasBody_iff [of example_response] have 1: "hasBody example_response"
    by blast
  have "bodyType (example_response\<lparr>bodyType := BodyType_val RBT_UPGRADE\<rparr>)
      = BodyType_val RBT_UPGRADE"
    by simp
  with hasBody_iff [of "example_response\<lparr>bodyType := BodyType_val RBT_UPGRADE\<rparr>"]
  have 2: "\<not> hasBody (example_response\<lparr>bodyType := BodyType_val RBT_UPGRADE\<rparr>)"
    by blast
  have d: "RBT_CHUNKED \<noteq> RBT_UNTIL_EOF" by simp
  with hasBody_iff [of example_response]
  have 3: "BodyType_val RBT_CHUNKED AND BodyType_val RBT_UNTIL_EOF = 0"
    by blast
  from t 1 2 d 3 show ?thesis by blast
qed

section \<open>Construction\<close>

text \<open>
  C5. Immediately after an \<^verbatim>\<open>AppResponse\<close> is constructed, its field
  \<^verbatim>\<open>httpState\<close> equals \<^verbatim>\<open>PARSING_HEADERS\<close> if and only if the storage in which
  the object is constructed already read \<^verbatim>\<open>PARSING_HEADERS\<close> in that field.
\<close>

theorem AppResponse_ctor_httpState_iff:
  "httpState (AppResponse_ctor HeaderTable_ctor mem) = HttpState_val PARSING_HEADERS
   \<longleftrightarrow> httpState mem = HttpState_val PARSING_HEADERS"
  by (simp add: AppResponse_ctor_def)

theorem AppResponse_ctor_httpState_iff_witness:
  "httpState (example_storage\<lparr>httpState := 0\<rparr>) = HttpState_val PARSING_HEADERS
   \<and> httpState (AppResponse_ctor id (example_storage\<lparr>httpState := 0\<rparr>))
       = HttpState_val PARSING_HEADERS"
proof -
  have h: "httpState (example_storage\<lparr>httpState := 0\<rparr>) = HttpState_val PARSING_HEADERS"
    by simp
  from AppResponse_ctor_httpState_iff [of id "example_storage\<lparr>httpState := 0\<rparr>", THEN iffD2, OF h]
  have "httpState (AppResponse_ctor id (example_storage\<lparr>httpState := 0\<rparr>))
      = HttpState_val PARSING_HEADERS" .
  with h show ?thesis
    by (intro conjI)
qed

text \<open>
  Constructed in storage whose \<^verbatim>\<open>httpState\<close> bits read as \<^verbatim>\<open>ERROR\<close>, the object is
  not in the state \<^verbatim>\<open>PARSING_HEADERS\<close>.
\<close>

theorem AppResponse_ctor_httpState_counterexample:
  "httpState (AppResponse_ctor id example_storage) \<noteq> HttpState_val PARSING_HEADERS"
  by (simp add: AppResponse_ctor_def example_storage_def)

text \<open>
  C9. After the constructor, \<^verbatim>\<open>bodyAlreadyRead\<close> is 0, \<^verbatim>\<open>parserState.headerParser\<close>
  is \<^verbatim>\<open>NULL\<close>, and the whole union \<^verbatim>\<open>aux\<close> is zero: \<^verbatim>\<open>contentLength\<close> is 0,
  \<^verbatim>\<open>endChunkReached\<close> and \<^verbatim>\<open>endReached\<close> are false and \<^verbatim>\<open>parseError\<close> is 0, in
  either byte order. \<^verbatim>\<open>headers\<close> is constructed with the capacity 16 and
  \<^verbatim>\<open>secureHeaders\<close> with the capacity 0. The constructor assigns nothing to
  \<^verbatim>\<open>httpState\<close> and \<^verbatim>\<open>bodyType\<close>: they hold what the storage held.
\<close>

theorem AppResponse_ctor_post:
  "bodyAlreadyRead (AppResponse_ctor HeaderTable_ctor mem) = 0
   \<and> parserState (AppResponse_ctor HeaderTable_ctor mem) = HeaderParser None
   \<and> headerParser (parserState (AppResponse_ctor HeaderTable_ctor mem)) = None
   \<and> aux (AppResponse_ctor HeaderTable_ctor mem) = 0
   \<and> contentLength (AppResponse_ctor HeaderTable_ctor mem) = 0
   \<and> (\<forall>bo. endChunkReached bo (AppResponse_ctor HeaderTable_ctor mem) = False
          \<and> endReached bo (AppResponse_ctor HeaderTable_ctor mem) = False
          \<and> parseError bo (AppResponse_ctor HeaderTable_ctor mem) = 0)
   \<and> headers (AppResponse_ctor HeaderTable_ctor mem) = HeaderTable_ctor 16
   \<and> secureHeaders (AppResponse_ctor HeaderTable_ctor mem) = HeaderTable_ctor 0
   \<and> httpState (AppResponse_ctor HeaderTable_ctor mem) = httpState mem
   \<and> bodyType (AppResponse_ctor HeaderTable_ctor mem) = bodyType mem"
  by (simp add: AppResponse_ctor_def contentLength_def endChunkReached_def endReached_def
      parseError_def aux_first_byte_def aux_first_four_bytes_def split: byte_order.split)

theorem AppResponse_ctor_post_witness:
  "AppResponse_ctor id example_storage =
     \<lparr> httpMajor = 255, httpMinor = 255, httpState = 8,
       wantKeepAlive = True, oneHundredContinueSent = True, hasDateHeader = True,
       bodyType = 3, statusCode = 65535,
       parserState = HeaderParser None, headers = 16, secureHeaders = 0,
       aux = 0, bodyAlreadyRead = 0 \<rparr>
   \<and> endChunkReached BigEndian example_storage
   \<and> \<not> endChunkReached BigEndian (AppResponse_ctor id example_storage)
   \<and> parseError LittleEndian example_storage = 16843009
   \<and> parseError LittleEndian (AppResponse_ctor id example_storage) = 0"
proof -
  note c = AppResponse_ctor_post [of id example_storage]
  have 1: "AppResponse_ctor id example_storage =
     \<lparr> httpMajor = 255, httpMinor = 255, httpState = 8,
       wantKeepAlive = True, oneHundredContinueSent = True, hasDateHeader = True,
       bodyType = 3, statusCode = 65535,
       parserState = HeaderParser None, headers = 16, secureHeaders = 0,
       aux = 0, bodyAlreadyRead = 0 \<rparr>"
    by (simp add: AppResponse_ctor_def example_storage_def)
  have 2: "endChunkReached BigEndian example_storage"
    by (simp add: example_storage_def endChunkReached_def aux_first_byte_def)
  have 3: "parseError LittleEndian example_storage = 16843009"
    by (simp add: example_storage_def parseError_def aux_first_four_bytes_def)
  from c have 4: "\<not> endChunkReached BigEndian (AppResponse_ctor id example_storage)"
    by blast
  from c have 5: "parseError LittleEndian (AppResponse_ctor id example_storage) = 0"
    by blast
  from 1 2 3 4 5 show ?thesis
    by (intro conjI)
qed

section \<open>The diagnostic strings\<close>




text \<open>
  C8. \<^verbatim>\<open>getBodyTypeString()\<close> returns the name of the enumerator without its prefix
  \<^verbatim>\<open>RBT_\<close> for four of the five body types (\<^verbatim>\<open>NO_BODY\<close>, \<^verbatim>\<open>UPGRADE\<close>,
  \<^verbatim>\<open>CONTENT_LENGTH\<close>, \<^verbatim>\<open>CHUNKED\<close>), and the name with the prefix,
  \<^verbatim>\<open>RBT_UNTIL_EOF\<close>, for \<^verbatim>\<open>RBT_UNTIL_EOF\<close>.
\<close>

theorem getBodyTypeString_names:
  "(bodyType r = BodyType_val RBT_NO_BODY \<longrightarrow> getBodyTypeString r = Some ''NO_BODY'')
   \<and> (bodyType r = BodyType_val RBT_UPGRADE \<longrightarrow> getBodyTypeString r = Some ''UPGRADE'')
   \<and> (bodyType r = BodyType_val RBT_CONTENT_LENGTH \<longrightarrow>
        getBodyTypeString r = Some ''CONTENT_LENGTH'')
   \<and> (bodyType r = BodyType_val RBT_CHUNKED \<longrightarrow> getBodyTypeString r = Some ''CHUNKED'')
   \<and> (bodyType r = BodyType_val RBT_UNTIL_EOF \<longrightarrow>
        getBodyTypeString r = Some ''RBT_UNTIL_EOF''
        \<and> getBodyTypeString r \<noteq> Some ''UNTIL_EOF'')"
  by (simp add: getBodyTypeString_def)

theorem getBodyTypeString_names_witness:
  "getBodyTypeString (example_response\<lparr>bodyType := BodyType_val RBT_NO_BODY\<rparr>)
     = Some ''NO_BODY''
   \<and> getBodyTypeString (example_response\<lparr>bodyType := BodyType_val RBT_UPGRADE\<rparr>)
     = Some ''UPGRADE''
   \<and> getBodyTypeString example_response = Some ''CONTENT_LENGTH''
   \<and> getBodyTypeString (example_response\<lparr>bodyType := BodyType_val RBT_CHUNKED\<rparr>)
     = Some ''CHUNKED''
   \<and> getBodyTypeString (example_response\<lparr>bodyType := BodyType_val RBT_UNTIL_EOF\<rparr>)
     = Some ''RBT_UNTIL_EOF''"
proof -
  let ?r = example_response
  have "bodyType (?r\<lparr>bodyType := BodyType_val RBT_NO_BODY\<rparr>) = BodyType_val RBT_NO_BODY"
    by simp
  from getBodyTypeString_names [of "?r\<lparr>bodyType := BodyType_val RBT_NO_BODY\<rparr>",
      THEN conjunct1, rule_format, OF this]
  have 1: "getBodyTypeString (?r\<lparr>bodyType := BodyType_val RBT_NO_BODY\<rparr>) = Some ''NO_BODY''" .
  have "bodyType (?r\<lparr>bodyType := BodyType_val RBT_UPGRADE\<rparr>) = BodyType_val RBT_UPGRADE"
    by simp
  from getBodyTypeString_names [of "?r\<lparr>bodyType := BodyType_val RBT_UPGRADE\<rparr>",
      THEN conjunct2, THEN conjunct1, rule_format, OF this]
  have 2: "getBodyTypeString (?r\<lparr>bodyType := BodyType_val RBT_UPGRADE\<rparr>) = Some ''UPGRADE''" .
  have "bodyType ?r = BodyType_val RBT_CONTENT_LENGTH"
    by (simp add: example_response_def)
  from getBodyTypeString_names [of ?r,
      THEN conjunct2, THEN conjunct2, THEN conjunct1, rule_format, OF this]
  have 3: "getBodyTypeString ?r = Some ''CONTENT_LENGTH''" .
  have "bodyType (?r\<lparr>bodyType := BodyType_val RBT_CHUNKED\<rparr>) = BodyType_val RBT_CHUNKED"
    by simp
  from getBodyTypeString_names [of "?r\<lparr>bodyType := BodyType_val RBT_CHUNKED\<rparr>",
      THEN conjunct2, THEN conjunct2, THEN conjunct2, THEN conjunct1, rule_format, OF this]
  have 4: "getBodyTypeString (?r\<lparr>bodyType := BodyType_val RBT_CHUNKED\<rparr>) = Some ''CHUNKED''" .
  have "bodyType (?r\<lparr>bodyType := BodyType_val RBT_UNTIL_EOF\<rparr>) = BodyType_val RBT_UNTIL_EOF"
    by simp
  from getBodyTypeString_names [of "?r\<lparr>bodyType := BodyType_val RBT_UNTIL_EOF\<rparr>",
      THEN conjunct2, THEN conjunct2, THEN conjunct2, THEN conjunct2, rule_format, OF this,
      THEN conjunct1]
  have 5: "getBodyTypeString (?r\<lparr>bodyType := BodyType_val RBT_UNTIL_EOF\<rparr>)
      = Some ''RBT_UNTIL_EOF''" .
  from 1 2 3 4 5 show ?thesis
    by (intro conjI)
qed

section \<open>The annotations of a SpawnException\<close>

text \<open>
  C10. \<^verbatim>\<open>get(name)\<close> returns the stored value when an annotation of that name is
  present and the empty string when there is none; \<^verbatim>\<open>operator[](name)\<close> returns what
  \<^verbatim>\<open>get(name)\<close> returns. After \<^verbatim>\<open>addAnnotations(m)\<close> every key of \<^verbatim>\<open>m\<close> is
  present with the value it has in \<^verbatim>\<open>m\<close>, whatever was stored under it before, and
  the annotations under the other keys are as they were.
\<close>

theorem annotations_get_add:
  "(RBT.lookup (annotations e) name = Some v \<longrightarrow> get e name = v)
   \<and> (RBT.lookup (annotations e) name = None \<longrightarrow> get e name = [])
   \<and> subscript e name = get e name
   \<and> (RBT.lookup m name = Some v' \<longrightarrow>
        RBT.lookup (annotations (addAnnotations e m)) name = Some v'
        \<and> get (addAnnotations e m) name = v')
   \<and> (RBT.lookup m name = None \<longrightarrow>
        RBT.lookup (annotations (addAnnotations e m)) name = RBT.lookup (annotations e) name
        \<and> get (addAnnotations e m) name = get e name)"
  by (simp add: get_def subscript_def lookup_addAnnotations map_add_def)

theorem annotations_get_add_witness:
  "get example_exception ''envvars'' = ''PATH''
   \<and> get example_exception ''stderr'' = []
   \<and> subscript example_exception ''stdout'' = ''old''
   \<and> get (addAnnotations example_exception example_annotations) ''stdout'' = ''new''
   \<and> RBT.lookup (annotations (addAnnotations example_exception example_annotations)) ''stderr''
       = Some []
   \<and> get (addAnnotations example_exception example_annotations) ''envvars'' = ''PATH''"
proof -
  have a: "RBT.lookup (annotations example_exception) ''envvars'' = Some ''PATH''"
    by (simp add: example_exception_def)
  have b: "RBT.lookup (annotations example_exception) ''stderr'' = None"
    by (simp add: example_exception_def)
  have c: "RBT.lookup (annotations example_exception) ''stdout'' = Some ''old''"
    by (simp add: example_exception_def)
  have d: "RBT.lookup example_annotations ''stdout'' = Some ''new''"
    by (simp add: example_annotations_def)
  have f: "RBT.lookup example_annotations ''stderr'' = Some []"
    by (simp add: example_annotations_def)
  have g: "RBT.lookup example_annotations ''envvars'' = None"
    by (simp add: example_annotations_def)
  note t = annotations_get_add [of example_exception _ _ example_annotations]
  from t [THEN conjunct1, rule_format, OF a]
  have 1: "get example_exception ''envvars'' = ''PATH''" .
  from t [THEN conjunct2, THEN conjunct1, rule_format, OF b]
  have 2: "get example_exception ''stderr'' = []" .
  from t [THEN conjunct1, rule_format, OF c] t [THEN conjunct2, THEN conjunct2, THEN conjunct1]
  have 3: "subscript example_exception ''stdout'' = ''old''"
    by simp
  from t [THEN conjunct2, THEN conjunct2, THEN conjunct2, THEN conjunct1, rule_format, OF d]
  have 4: "get (addAnnotations example_exception example_annotations) ''stdout'' = ''new''"
    by simp
  from t [THEN conjunct2, THEN conjunct2, THEN conjunct2, THEN conjunct1, rule_format, OF f]
  have 5: "RBT.lookup (annotations (addAnnotations example_exception example_annotations))
      ''stderr'' = Some []"
    by simp
  from t [THEN conjunct2, THEN conjunct2, THEN conjunct2, THEN conjunct2, rule_format, OF g] 1
  have 6: "get (addAnnotations example_exception example_annotations) ''envvars'' = ''PATH''"
    by simp
  from 1 2 3 4 5 6 show ?thesis
    by (intro conjI)
qed

end
